theory Spec2Isabelle
  imports Main "HOL-Library.Word" "HOL-Library.Monad_Syntax"
begin

unbundle bit_operations_syntax

section \<open>Data model of the TMS9918A core (src/src/tms9918_core.c)\<close>

type_synonym u8 = "8 word"
type_synonym u16 = "16 word"

text \<open>
  Modelled from the spec: the enumeration vrEmuTms9918aMode is declared in the header
  tms9918_core.h, which is not among the sources. Its values are the four display modes of
  sections 3 and 4.2 of the specification, under the names the source switches over.
\<close>

datatype vrEmuTms9918aMode =
  TMS_MODE_GRAPHICS_I | TMS_MODE_GRAPHICS_II | TMS_MODE_TEXT | TMS_MODE_MULTICOLOR

text \<open>
  Modelled from the spec: the register enumeration and TMS_NUM_REGISTERS come from the
  missing header. Section 3 of the specification has eight registers R0..R7.
\<close>

definition TMS_NUM_REGISTERS :: nat where "TMS_NUM_REGISTERS = 8"
definition TMS_REG_0 :: nat where "TMS_REG_0 = 0"
definition TMS_REG_1 :: nat where "TMS_REG_1 = 1"
definition TMS_REG_2 :: nat where "TMS_REG_2 = 2"
definition TMS_REG_3 :: nat where "TMS_REG_3 = 3"
definition TMS_REG_4 :: nat where "TMS_REG_4 = 4"
definition TMS_REG_5 :: nat where "TMS_REG_5 = 5"
definition TMS_REG_6 :: nat where "TMS_REG_6 = 6"
definition TMS_REG_7 :: nat where "TMS_REG_7 = 7"

text \<open>
  Modelled from the spec: TMS9918A_PIXELS_X and TMS9918A_PIXELS_Y come from the missing
  header. Section 6 of the specification gives the visible raster as 256 by 192.
\<close>

definition TMS9918A_PIXELS_X :: int where "TMS9918A_PIXELS_X = 256"
definition TMS9918A_PIXELS_Y :: int where "TMS9918A_PIXELS_Y = 192"

text \<open>
  Modelled from the spec: the colour enumeration vrEmuTms9918aColor comes from the missing
  header. Section 6 of the specification numbers the palette: 0 transparent, 1 black.
\<close>

definition TMS_TRANSPARENT :: u8 where "TMS_TRANSPARENT = 0"
definition TMS_BLACK :: u8 where "TMS_BLACK = 1"

text \<open>The macros of the source file itself.\<close>

definition VRAM_SIZE :: nat where "VRAM_SIZE = 2 ^ 14"
definition GRAPHICS_NUM_COLS :: int where "GRAPHICS_NUM_COLS = 32"
definition GRAPHICS_CHAR_WIDTH :: nat where "GRAPHICS_CHAR_WIDTH = 8"
definition TEXT_NUM_COLS :: int where "TEXT_NUM_COLS = 40"
definition TEXT_CHAR_WIDTH :: nat where "TEXT_CHAR_WIDTH = 6"
definition MAX_SPRITES :: int where "MAX_SPRITES = 32"
definition SPRITE_ATTR_BYTES :: int where "SPRITE_ATTR_BYTES = 4"
definition LAST_SPRITE_VPOS :: int where "LAST_SPRITE_VPOS = 0xD0"
definition MAX_SCANLINE_SPRITES :: int where "MAX_SCANLINE_SPRITES = 4"
definition STATUS_INT :: u8 where "STATUS_INT = 0x80"
definition STATUS_5S :: u8 where "STATUS_5S = 0x40"
definition STATUS_COL :: u8 where "STATUS_COL = 0x20"

text \<open>
  struct vrEmuTMS9918a_s. The arrays are functions from the index; of \<open>vram\<close> only
  the indices below \<open>VRAM_SIZE\<close> stand for bytes of the array, of \<open>registers\<close>
  those below 8 and of \<open>rowSpriteBits\<close> those below 256. An access the source makes
  without a mask goes through \<open>vram_at\<close> below, which fails outside the array.
  \<open>currentAddress\<close> is an unsigned short, a 16-bit word.
\<close>

record vrEmuTMS9918a_s =
  vram :: "nat \<Rightarrow> u8"
  registers :: "nat \<Rightarrow> u8"
  status :: u8
  lastMode :: u8
  currentAddress :: u16
  mode :: vrEmuTms9918aMode
  rowSpriteBits :: "nat \<Rightarrow> u8"

type_synonym VrEmuTms9918a = vrEmuTMS9918a_s

text \<open>The caller's scanline buffer \<open>uint8_t pixels[256]\<close>, by index.\<close>

type_synonym pixels = "nat \<Rightarrow> u8"

text \<open>
  A read \<open>vram[i]\<close> with an \<open>int\<close> index that the source does not mask. Outside
  the array the C program has no defined result: \<open>None\<close>.
\<close>

definition vram_at :: "VrEmuTms9918a \<Rightarrow> int \<Rightarrow> u8 option" where
  "vram_at t i = (if 0 \<le> i \<and> i < int VRAM_SIZE then Some (vram t (nat i)) else None)"

section \<open>Register decoding\<close>

definition tmsMode :: "VrEmuTms9918a \<Rightarrow> vrEmuTms9918aMode" where
  "tmsMode t =
     (if registers t TMS_REG_0 AND 0x02 \<noteq> 0 then TMS_MODE_GRAPHICS_II
      else (let sel = drop_bit 3 (registers t TMS_REG_1 AND 0x18) in
        if sel = 0 then TMS_MODE_GRAPHICS_I
        else if sel = 1 then TMS_MODE_MULTICOLOR
        else if sel = 2 then TMS_MODE_TEXT
        else TMS_MODE_GRAPHICS_I))"

definition tmsSpriteSize :: "VrEmuTms9918a \<Rightarrow> int" where
  "tmsSpriteSize t = uint (drop_bit 1 (registers t TMS_REG_1 AND 0x02))"

definition tmsSpriteMag :: "VrEmuTms9918a \<Rightarrow> int" where
  "tmsSpriteMag t = uint (registers t TMS_REG_1 AND 0x01)"

definition tmsNameTableAddr :: "VrEmuTms9918a \<Rightarrow> u16" where
  "tmsNameTableAddr t = push_bit 10 (ucast (registers t TMS_REG_2 AND 0x0f))"

definition tmsColorTableAddr :: "VrEmuTms9918a \<Rightarrow> u16" where
  "tmsColorTableAddr t =
     (if mode t = TMS_MODE_GRAPHICS_II
      then push_bit 6 (ucast (registers t TMS_REG_3 AND 0x80))
      else push_bit 6 (ucast (registers t TMS_REG_3)))"

definition tmsPatternTableAddr :: "VrEmuTms9918a \<Rightarrow> u16" where
  "tmsPatternTableAddr t =
     (if mode t = TMS_MODE_GRAPHICS_II
      then push_bit 11 (ucast (registers t TMS_REG_4 AND 0x04))
      else push_bit 11 (ucast (registers t TMS_REG_4 AND 0x07)))"

definition tmsSpriteAttrTableAddr :: "VrEmuTms9918a \<Rightarrow> u16" where
  "tmsSpriteAttrTableAddr t = push_bit 7 (ucast (registers t TMS_REG_5 AND 0x7f))"

definition tmsSpritePatternTableAddr :: "VrEmuTms9918a \<Rightarrow> u16" where
  "tmsSpritePatternTableAddr t = push_bit 11 (ucast (registers t TMS_REG_6 AND 0x07))"

definition vrEmuTms9918aDisplayEnabled :: "VrEmuTms9918a \<Rightarrow> int" where
  "vrEmuTms9918aDisplayEnabled t = (if registers t TMS_REG_1 AND 0x40 \<noteq> 0 then 1 else 0)"

definition tmsMainBgColor :: "VrEmuTms9918a \<Rightarrow> u8" where
  "tmsMainBgColor t =
     (if vrEmuTms9918aDisplayEnabled t \<noteq> 0 then registers t TMS_REG_7 else TMS_BLACK) AND 0x0f"

definition tmsMainFgColor :: "VrEmuTms9918a \<Rightarrow> u8" where
  "tmsMainFgColor t =
     (let c = drop_bit 4 (registers t TMS_REG_7) in
      if c = TMS_TRANSPARENT then tmsMainBgColor t else c)"

definition tmsFgColor :: "VrEmuTms9918a \<Rightarrow> u8 \<Rightarrow> u8" where
  "tmsFgColor t colorByte =
     (let c = drop_bit 4 colorByte in if c = TMS_TRANSPARENT then tmsMainBgColor t else c)"

definition tmsBgColor :: "VrEmuTms9918a \<Rightarrow> u8 \<Rightarrow> u8" where
  "tmsBgColor t colorByte =
     (let c = colorByte AND 0x0f in if c = TMS_TRANSPARENT then tmsMainBgColor t else c)"

section \<open>Reset and the two ports\<close>

text \<open>
  vrEmuTms9918aReset on a valid instance. The source assigns currentAddress, lastMode and
  status and fills the two arrays; it assigns neither \<open>mode\<close> nor \<open>rowSpriteBits\<close>.
\<close>

definition vrEmuTms9918aReset :: "VrEmuTms9918a \<Rightarrow> VrEmuTms9918a" where
  "vrEmuTms9918aReset t =
     t\<lparr> currentAddress := 0,
        lastMode := 0,
        status := 0,
        registers := (\<lambda>r. if r < TMS_NUM_REGISTERS then 0 else registers t r),
        vram := (\<lambda>a. if a < VRAM_SIZE then 0xff else vram t a) \<rparr>"

text \<open>
  vrEmuTms9918aNew: malloc, then reset. The argument is the content of the block malloc
  returned, which the C program does not know.
\<close>

definition vrEmuTms9918aNew :: "VrEmuTms9918a \<Rightarrow> VrEmuTms9918a" where
  "vrEmuTms9918aNew fresh = vrEmuTms9918aReset fresh"

definition vrEmuTms9918aWriteAddr :: "VrEmuTms9918a \<Rightarrow> u8 \<Rightarrow> VrEmuTms9918a" where
  "vrEmuTms9918aWriteAddr t data =
     (if lastMode t \<noteq> 0 then
        (let t1 =
           (if data AND 0x80 \<noteq> 0 then
              (let t' = t\<lparr> registers :=
                           (registers t)(unat (data AND 0x07) := ucast (currentAddress t AND 0xff)) \<rparr>
               in t'\<lparr> mode := tmsMode t' \<rparr>)
            else t\<lparr> currentAddress := currentAddress t OR push_bit 8 (ucast (data AND 0x3f)) \<rparr>)
         in t1\<lparr> lastMode := 0 \<rparr>)
      else t\<lparr> currentAddress := ucast data, lastMode := 1 \<rparr>)"

definition vrEmuTms9918aWriteData :: "VrEmuTms9918a \<Rightarrow> u8 \<Rightarrow> VrEmuTms9918a" where
  "vrEmuTms9918aWriteData t data =
     t\<lparr> vram := (vram t)(unat (currentAddress t AND 0x3fff) := data),
        currentAddress := currentAddress t + 1 \<rparr>"

definition vrEmuTms9918aReadStatus :: "VrEmuTms9918a \<Rightarrow> u8 \<times> VrEmuTms9918a" where
  "vrEmuTms9918aReadStatus t =
     (let tmpStatus = status t
      in (tmpStatus, t\<lparr> status := status t AND NOT (STATUS_INT OR STATUS_COL) \<rparr>))"

definition vrEmuTms9918aReadData :: "VrEmuTms9918a \<Rightarrow> u8 \<times> VrEmuTms9918a" where
  "vrEmuTms9918aReadData t =
     (vram t (unat (currentAddress t AND 0x3fff)), t\<lparr> currentAddress := currentAddress t + 1 \<rparr>)"

definition vrEmuTms9918aReadDataNoInc :: "VrEmuTms9918a \<Rightarrow> u8" where
  "vrEmuTms9918aReadDataNoInc t = vram t (unat (currentAddress t AND 0x3fff))"

definition vrEmuTms9918aRegValue :: "VrEmuTms9918a \<Rightarrow> nat \<Rightarrow> u8" where
  "vrEmuTms9918aRegValue t reg = registers t (reg mod 8)"

definition vrEmuTms9918aVramValue :: "VrEmuTms9918a \<Rightarrow> u16 \<Rightarrow> u8" where
  "vrEmuTms9918aVramValue t addr = vram t (unat (addr AND 0x3fff))"

text \<open>An instance whose bytes are all zero, used as a concrete starting point.\<close>

definition zeroed :: VrEmuTms9918a where
  "zeroed = \<lparr> vram = (\<lambda>_. 0), registers = (\<lambda>_. 0), status = 0, lastMode = 0,
              currentAddress = 0, mode = TMS_MODE_GRAPHICS_I, rowSpriteBits = (\<lambda>_. 0) \<rparr>"

text \<open>A host writing a byte sequence through the data port, and reading \<open>n\<close> bytes back.\<close>

fun write_seq :: "VrEmuTms9918a \<Rightarrow> u8 list \<Rightarrow> VrEmuTms9918a" where
  "write_seq t [] = t"
| "write_seq t (b # bs) = write_seq (vrEmuTms9918aWriteData t b) bs"

fun read_seq :: "VrEmuTms9918a \<Rightarrow> nat \<Rightarrow> u8 list \<times> VrEmuTms9918a" where
  "read_seq t 0 = ([], t)"
| "read_seq t (Suc n) =
     (let (b, t1) = vrEmuTms9918aReadData t; (bs, t2) = read_seq t1 n in (b # bs, t2))"

section \<open>The sprite engine\<close>

text \<open>C division of an \<open>int\<close> by 2 truncates towards zero (\<open>patternRow /= 2\<close>).\<close>

definition c_div2 :: "int \<Rightarrow> int" where
  "c_div2 a = (if a < 0 then - ((- a) div 2) else a div 2)"

text \<open>
  The body of \<open>if (patternByte & (0x80 >> patternBit))\<close> in the column loop: the colour
  is written unless transparent, a column already marked raises COL, the column is marked.
\<close>

definition sprite_plot ::
  "u8 \<Rightarrow> nat \<Rightarrow> VrEmuTms9918a \<times> pixels \<Rightarrow> VrEmuTms9918a \<times> pixels" where
  "sprite_plot spriteColor screenX tp =
     (let t = fst tp;
          pixels' = (if spriteColor \<noteq> TMS_TRANSPARENT
                     then (snd tp)(screenX := spriteColor) else snd tp);
          t' = (if rowSpriteBits t screenX \<noteq> 0
                then t\<lparr> status := status t OR STATUS_COL \<rparr> else t)
      in (t'\<lparr> rowSpriteBits := (rowSpriteBits t')(screenX := 1) \<rparr>, pixels'))"

text \<open>
  The loop \<open>for (screenX = hPos; screenX < hPos + spriteSizePx; ++screenX, ++screenBit)\<close>;
  \<open>endX\<close> is \<open>hPos + spriteSizePx\<close>. The refill \<open>vram[patternOffset + 16]\<close> is read
  whenever the eighth pattern bit has been passed, also by an 8x8 sprite.
\<close>

function sprite_columns ::
  "int \<Rightarrow> int \<Rightarrow> u8 \<Rightarrow> int \<Rightarrow> int \<Rightarrow> nat \<Rightarrow> u8 \<Rightarrow>
     VrEmuTms9918a \<times> pixels \<Rightarrow> (VrEmuTms9918a \<times> pixels) option" where
  "sprite_columns endX patternOffset spriteColor screenX screenBit patternBit patternByte tp =
     (if \<not> screenX < endX then Some tp
      else if screenX \<ge> TMS9918A_PIXELS_X then Some tp
      else
        (let tp1 = (if screenX \<ge> 0 \<and> patternByte AND drop_bit patternBit 0x80 \<noteq> 0
                    then sprite_plot spriteColor (nat screenX) tp else tp)
         in if tmsSpriteMag (fst tp1) = 0 \<or> screenBit AND 0x01 \<noteq> 0 then
              (if patternBit + 1 = 8 then
                 do { refill \<leftarrow> vram_at (fst tp1) (patternOffset + 16);
                      sprite_columns endX patternOffset spriteColor
                        (screenX + 1) (screenBit + 1) 0 refill tp1 }
               else sprite_columns endX patternOffset spriteColor
                      (screenX + 1) (screenBit + 1) (patternBit + 1) patternByte tp1)
            else sprite_columns endX patternOffset spriteColor
                   (screenX + 1) (screenBit + 1) patternBit patternByte tp1))"
  by pat_completeness auto
termination
  by (relation "measure (\<lambda>(endX, _, _, screenX, _). nat (endX - screenX))") auto

text \<open>
  The row of the pattern that line \<open>y\<close> shows of a sprite whose attribute byte 0 is
  \<open>vPosByte\<close>: values above \<open>(uint8_t)-32\<close> stand for -31..-1, one is added, and a
  magnified sprite halves the distance.
\<close>

definition sprite_pattern_row :: "VrEmuTms9918a \<Rightarrow> u8 \<Rightarrow> int \<Rightarrow> int" where
  "sprite_pattern_row t y vPosByte =
     (let vPos = (if vPosByte > uint (- 32 :: u8) then vPosByte - 256 else vPosByte) + 1;
          patternRow = uint y - vPos
      in if tmsSpriteMag t \<noteq> 0 then c_div2 patternRow else patternRow)"

text \<open>The test \<open>patternRow < 0 || patternRow >= (tmsSpriteSize ? 16 : 8)\<close>, negated.\<close>

definition sprite_row_on_line :: "VrEmuTms9918a \<Rightarrow> int \<Rightarrow> bool" where
  "sprite_row_on_line t patternRow \<longleftrightarrow>
     \<not> (patternRow < 0 \<or> patternRow \<ge> (if tmsSpriteSize t \<noteq> 0 then 16 else 8))"

text \<open>Lines 379 to 428: fetch name, position and pattern byte of a visible sprite, walk its columns.\<close>

definition draw_sprite ::
  "int \<Rightarrow> u16 \<Rightarrow> int \<Rightarrow> int \<Rightarrow> u8 \<Rightarrow>
     VrEmuTms9918a \<times> pixels \<Rightarrow> (VrEmuTms9918a \<times> pixels) option" where
  "draw_sprite spriteSizePx spritePatternAddr spriteAttrAddr patternRow spriteColor tp =
     do { patternName \<leftarrow> vram_at (fst tp) (spriteAttrAddr + 2);
          let patternOffset =
                uint (word_of_int (uint spritePatternAddr + uint patternName * 8 + patternRow) :: u16);
          hByte \<leftarrow> vram_at (fst tp) (spriteAttrAddr + 1);
          flags \<leftarrow> vram_at (fst tp) (spriteAttrAddr + 3);
          let hPos = (if flags AND 0x80 \<noteq> 0 then uint hByte - 32 else uint hByte);
          patternByte \<leftarrow> vram_at (fst tp) patternOffset;
          sprite_columns (hPos + spriteSizePx) patternOffset spriteColor hPos 0 0 patternByte tp }"

text \<open>One pass of the body of \<open>for (i = 0; i < MAX_SPRITES; ++i)\<close>: it breaks, or goes on
  to the next slot with the count of sprites shown.\<close>

datatype 'a loop_exit = Break 'a | Continue nat 'a

definition sprite_slot ::
  "u8 \<Rightarrow> int \<Rightarrow> u16 \<Rightarrow> u16 \<Rightarrow> nat \<Rightarrow> nat \<Rightarrow>
     VrEmuTms9918a \<times> pixels \<Rightarrow> (VrEmuTms9918a \<times> pixels) loop_exit option" where
  "sprite_slot y spriteSizePx spriteAttrTableAddr spritePatternAddr i spritesShown tp =
     (let t = fst tp;
          spriteAttrAddr = uint spriteAttrTableAddr + int i * SPRITE_ATTR_BYTES
      in do {
        vByte \<leftarrow> vram_at t spriteAttrAddr;
        if uint vByte = LAST_SPRITE_VPOS then
          Some (Break (if status t AND STATUS_5S = 0
                       then (t\<lparr> status := status t OR of_nat i \<rparr>, snd tp) else tp))
        else
          (let patternRow = sprite_pattern_row t y (uint vByte) in
           if \<not> sprite_row_on_line t patternRow then Some (Continue spritesShown tp)
           else do {
             colorByte \<leftarrow> vram_at t (spriteAttrAddr + 3);
             let spriteColor = colorByte AND 0x0f;
             let tp1 = (if spritesShown = 0
                        then (t\<lparr> rowSpriteBits :=
                                  (\<lambda>x. if int x < TMS9918A_PIXELS_X then 0 else rowSpriteBits t x) \<rparr>,
                              snd tp)
                        else tp);
             if int (spritesShown + 1) > MAX_SCANLINE_SPRITES then
               Some (Break (if status (fst tp1) AND STATUS_5S = 0
                            then ((fst tp1)\<lparr> status := status (fst tp1) OR (STATUS_5S OR of_nat i) \<rparr>,
                                  snd tp1)
                            else tp1))
             else do {
               tp2 \<leftarrow> draw_sprite spriteSizePx spritePatternAddr spriteAttrAddr
                        patternRow spriteColor tp1;
               Some (Continue (spritesShown + 1) tp2) } }) })"

function sprite_slots ::
  "u8 \<Rightarrow> int \<Rightarrow> u16 \<Rightarrow> u16 \<Rightarrow> nat \<Rightarrow> nat \<Rightarrow>
     VrEmuTms9918a \<times> pixels \<Rightarrow> (VrEmuTms9918a \<times> pixels) option" where
  "sprite_slots y spriteSizePx spriteAttrTableAddr spritePatternAddr i spritesShown tp =
     (if \<not> int i < MAX_SPRITES then Some tp
      else
        (case sprite_slot y spriteSizePx spriteAttrTableAddr spritePatternAddr i spritesShown tp of
           None \<Rightarrow> None
         | Some (Break tp') \<Rightarrow> Some tp'
         | Some (Continue spritesShown' tp') \<Rightarrow>
             sprite_slots y spriteSizePx spriteAttrTableAddr spritePatternAddr
               (i + 1) spritesShown' tp'))"
  by pat_completeness auto
termination
  by (relation "measure (\<lambda>(_, _, _, _, i, _). 32 - i)") (auto simp: MAX_SPRITES_def)

definition vrEmuTms9918aOutputSprites ::
  "VrEmuTms9918a \<Rightarrow> u8 \<Rightarrow> pixels \<Rightarrow> (VrEmuTms9918a \<times> pixels) option" where
  "vrEmuTms9918aOutputSprites t y pixels =
     (let spriteSizePx = (if tmsSpriteSize t \<noteq> 0 then 16 else 8) *
                         (if tmsSpriteMag t \<noteq> 0 then 2 else 1);
          spriteAttrTableAddr = tmsSpriteAttrTableAddr t;
          spritePatternAddr = tmsSpritePatternTableAddr t;
          t1 = (if y = 0 then t\<lparr> status := 0 \<rparr> else t)
      in sprite_slots y spriteSizePx spriteAttrTableAddr spritePatternAddr 0 0 (t1, pixels))"

section \<open>The mode renderers\<close>

text \<open>A C loop \<open>for (i = from; i < to; ++i)\<close> whose body can fail and neither breaks nor
  changes \<open>i\<close>.\<close>

function for_loop :: "int \<Rightarrow> int \<Rightarrow> (int \<Rightarrow> 'a \<Rightarrow> 'a option) \<Rightarrow> 'a \<Rightarrow> 'a option" where
  "for_loop i to body acc =
     (if i < to then do { acc' \<leftarrow> body i acc; for_loop (i + 1) to body acc' } else Some acc)"
  by pat_completeness auto
termination
  by (relation "measure (\<lambda>(i, to, _, _). nat (to - i))") auto

text \<open>
  \<open>for (i = 0; i < width; ++i) { pixels[++pixelIndex] = (patternByte & 0x80) ? fg : bg;
  patternByte <<= 1; }\<close>, by the number of passes left.
\<close>

fun tile_row :: "nat \<Rightarrow> u8 \<Rightarrow> u8 \<Rightarrow> u8 \<Rightarrow> int \<times> pixels \<Rightarrow> int \<times> pixels" where
  "tile_row 0 patternByte fgColor bgColor ip = ip"
| "tile_row (Suc n) patternByte fgColor bgColor ip =
     tile_row n (push_bit 1 patternByte) fgColor bgColor
       (fst ip + 1,
        (snd ip)(nat (fst ip + 1) := (if patternByte AND 0x80 \<noteq> 0 then fgColor else bgColor)))"

text \<open>\<open>for (i = 0; i < n; ++i) pixels[++pixelIndex] = c;\<close>\<close>

fun put_run :: "nat \<Rightarrow> u8 \<Rightarrow> int \<times> pixels \<Rightarrow> int \<times> pixels" where
  "put_run 0 c ip = ip"
| "put_run (Suc n) c ip = put_run n c (fst ip + 1, (snd ip)(nat (fst ip + 1) := c))"

text \<open>\<open>while (++pixelIndex < limit) pixels[pixelIndex] = c;\<close>\<close>

function fill_while :: "int \<Rightarrow> u8 \<Rightarrow> int \<times> pixels \<Rightarrow> int \<times> pixels" where
  "fill_while limit c ip =
     (let pixelIndex = fst ip + 1
      in if pixelIndex < limit then fill_while limit c (pixelIndex, (snd ip)(nat pixelIndex := c))
         else (pixelIndex, snd ip))"
  by pat_completeness auto
termination
  by (relation "measure (\<lambda>(limit, _, ip). nat (limit - fst ip))") auto

definition vrEmuTms9918aGraphicsIScanLine ::
  "VrEmuTms9918a \<Rightarrow> u8 \<Rightarrow> pixels \<Rightarrow> (VrEmuTms9918a \<times> pixels) option" where
  "vrEmuTms9918aGraphicsIScanLine t y pixels =
     (let textRow = uint y div 8;
          patternRow = uint y mod 8;
          namesAddr = tmsNameTableAddr t + word_of_int (textRow * GRAPHICS_NUM_COLS);
          patternBaseAddr = tmsPatternTableAddr t;
          colorBaseAddr = tmsColorTableAddr t
      in do {
        ip \<leftarrow> for_loop 0 GRAPHICS_NUM_COLS
                (\<lambda>tileX ip. do {
                   name \<leftarrow> vram_at t (uint namesAddr + tileX);
                   let pattern = uint name;
                   patternByte \<leftarrow> vram_at t (uint patternBaseAddr + pattern * 8 + patternRow);
                   colorByte \<leftarrow> vram_at t (uint colorBaseAddr + pattern div 8);
                   Some (tile_row GRAPHICS_CHAR_WIDTH patternByte
                           (tmsFgColor t colorByte) (tmsBgColor t colorByte) ip) })
                (- 1, pixels);
        vrEmuTms9918aOutputSprites t y (snd ip) })"

definition vrEmuTms9918aGraphicsIIScanLine ::
  "VrEmuTms9918a \<Rightarrow> u8 \<Rightarrow> pixels \<Rightarrow> (VrEmuTms9918a \<times> pixels) option" where
  "vrEmuTms9918aGraphicsIIScanLine t y pixels =
     (let textRow = uint y div 8;
          patternRow = uint y mod 8;
          namesAddr = tmsNameTableAddr t + word_of_int (textRow * GRAPHICS_NUM_COLS);
          pageThird = drop_bit 3 (textRow AND 0x18);
          pageOffset = push_bit 11 pageThird;
          patternBaseAddr = tmsPatternTableAddr t + word_of_int pageOffset;
          colorBaseAddr = tmsColorTableAddr t + word_of_int pageOffset
      in do {
        ip \<leftarrow> for_loop 0 GRAPHICS_NUM_COLS
                (\<lambda>tileX ip. do {
                   name \<leftarrow> vram_at t (uint namesAddr + tileX);
                   let pattern = uint name;
                   patternByte \<leftarrow> vram_at t (uint patternBaseAddr + pattern * 8 + patternRow);
                   colorByte \<leftarrow> vram_at t (uint colorBaseAddr + pattern * 8 + patternRow);
                   Some (tile_row GRAPHICS_CHAR_WIDTH patternByte
                           (tmsFgColor t colorByte) (tmsBgColor t colorByte) ip) })
                (- 1, pixels);
        vrEmuTms9918aOutputSprites t y (snd ip) })"

text \<open>Text mode draws no sprites: the sprite engine, and with it the clearing of the status
  byte on line 0, is not called.\<close>

definition vrEmuTms9918aTextScanLine ::
  "VrEmuTms9918a \<Rightarrow> u8 \<Rightarrow> pixels \<Rightarrow> (VrEmuTms9918a \<times> pixels) option" where
  "vrEmuTms9918aTextScanLine t y pixels =
     (let textRow = uint y div 8;
          patternRow = uint y mod 8;
          namesAddr = tmsNameTableAddr t + word_of_int (textRow * TEXT_NUM_COLS);
          bgColor = tmsMainBgColor t;
          fgColor = tmsMainFgColor t;
          ip0 = fill_while 8 bgColor (- 1, pixels);
          ip1 = (fst ip0 - 1, snd ip0)
      in do {
        ip2 \<leftarrow> for_loop 0 TEXT_NUM_COLS
                 (\<lambda>tileX ip. do {
                    name \<leftarrow> vram_at t (uint namesAddr + tileX);
                    let pattern = uint name;
                    patternByte \<leftarrow> vram_at t (uint (tmsPatternTableAddr t) + pattern * 8 + patternRow);
                    colorByte \<leftarrow> vram_at t (uint (tmsColorTableAddr t) + pattern div 8);
                    Some (tile_row TEXT_CHAR_WIDTH patternByte fgColor bgColor ip) })
                 ip1;
        Some (t, snd (fill_while TMS9918A_PIXELS_X bgColor ip2)) })"

definition vrEmuTms9918aMulticolorScanLine ::
  "VrEmuTms9918a \<Rightarrow> u8 \<Rightarrow> pixels \<Rightarrow> (VrEmuTms9918a \<times> pixels) option" where
  "vrEmuTms9918aMulticolorScanLine t y pixels =
     (let textRow = uint y div 8;
          patternRow = (uint y div 4) mod 2 + (textRow mod 4) * 2;
          namesAddr = tmsNameTableAddr t + word_of_int (textRow * GRAPHICS_NUM_COLS)
      in do {
        ip \<leftarrow> for_loop 0 GRAPHICS_NUM_COLS
                (\<lambda>tileX ip. do {
                   name \<leftarrow> vram_at t (uint namesAddr + tileX);
                   let pattern = uint name;
                   colorByte \<leftarrow> vram_at t (uint (tmsPatternTableAddr t) + pattern * 8 + patternRow);
                   Some (put_run 4 (tmsBgColor t colorByte)
                           (put_run 4 (tmsFgColor t colorByte) ip)) })
                (- 1, pixels);
        vrEmuTms9918aOutputSprites t y (snd ip) })"

section \<open>The scanline dispatcher\<close>

text \<open>vrEmuTms9918aScanLine on a valid instance; \<open>memset(pixels, c, 256)\<close> writes the
  first 256 bytes of the caller's buffer.\<close>

definition vrEmuTms9918aScanLine ::
  "VrEmuTms9918a \<Rightarrow> u8 \<Rightarrow> pixels \<Rightarrow> (VrEmuTms9918a \<times> pixels) option" where
  "vrEmuTms9918aScanLine t y pixels =
     (if vrEmuTms9918aDisplayEnabled t = 0 \<or> uint y \<ge> TMS9918A_PIXELS_Y then
        Some (t, (\<lambda>x. if int x < TMS9918A_PIXELS_X then tmsMainBgColor t else pixels x))
      else do {
        tp \<leftarrow> (case mode t of
                  TMS_MODE_GRAPHICS_I \<Rightarrow> vrEmuTms9918aGraphicsIScanLine t y pixels
                | TMS_MODE_GRAPHICS_II \<Rightarrow> vrEmuTms9918aGraphicsIIScanLine t y pixels
                | TMS_MODE_TEXT \<Rightarrow> vrEmuTms9918aTextScanLine t y pixels
                | TMS_MODE_MULTICOLOR \<Rightarrow> vrEmuTms9918aMulticolorScanLine t y pixels);
        Some (if uint y = TMS9918A_PIXELS_Y - 1
              then ((fst tp)\<lparr> status := status (fst tp) OR STATUS_INT \<rparr>, snd tp)
              else tp) })"

section \<open>Calls through the instance pointer\<close>

text \<open>
  The argument \<open>VrEmuTms9918a*\<close> of a public function is NULL or points to an instance.
  A function whose source tests the pointer returns as the source says; a function whose
  source reads \<open>tms9918a->...\<close> without a test has no defined result on NULL: \<open>None\<close>.
\<close>

datatype handle = NULL | Instance VrEmuTms9918a

definition deref :: "handle \<Rightarrow> VrEmuTms9918a option" where
  "deref h = (case h of NULL \<Rightarrow> None | Instance t \<Rightarrow> Some t)"

definition vrEmuTms9918aReset_ptr :: "handle \<Rightarrow> handle" where
  "vrEmuTms9918aReset_ptr h =
     (case h of NULL \<Rightarrow> NULL | Instance t \<Rightarrow> Instance (vrEmuTms9918aReset t))"

definition vrEmuTms9918aWriteAddr_ptr :: "handle \<Rightarrow> u8 \<Rightarrow> handle option" where
  "vrEmuTms9918aWriteAddr_ptr h data =
     do { t \<leftarrow> deref h; Some (Instance (vrEmuTms9918aWriteAddr t data)) }"

definition vrEmuTms9918aWriteData_ptr :: "handle \<Rightarrow> u8 \<Rightarrow> handle option" where
  "vrEmuTms9918aWriteData_ptr h data =
     do { t \<leftarrow> deref h; Some (Instance (vrEmuTms9918aWriteData t data)) }"

definition vrEmuTms9918aReadStatus_ptr :: "handle \<Rightarrow> (u8 \<times> handle) option" where
  "vrEmuTms9918aReadStatus_ptr h =
     do { t \<leftarrow> deref h;
          Some (fst (vrEmuTms9918aReadStatus t), Instance (snd (vrEmuTms9918aReadStatus t))) }"

definition vrEmuTms9918aReadData_ptr :: "handle \<Rightarrow> (u8 \<times> handle) option" where
  "vrEmuTms9918aReadData_ptr h =
     do { t \<leftarrow> deref h;
          Some (fst (vrEmuTms9918aReadData t), Instance (snd (vrEmuTms9918aReadData t))) }"

definition vrEmuTms9918aReadDataNoInc_ptr :: "handle \<Rightarrow> u8 option" where
  "vrEmuTms9918aReadDataNoInc_ptr h = do { t \<leftarrow> deref h; Some (vrEmuTms9918aReadDataNoInc t) }"

definition vrEmuTms9918aScanLine_ptr ::
  "handle \<Rightarrow> u8 \<Rightarrow> pixels \<Rightarrow> (handle \<times> pixels) option" where
  "vrEmuTms9918aScanLine_ptr h y pixels =
     (case h of
        NULL \<Rightarrow> Some (NULL, pixels)
      | Instance t \<Rightarrow>
          do { tp \<leftarrow> vrEmuTms9918aScanLine t y pixels; Some (Instance (fst tp), snd tp) })"

definition vrEmuTms9918aRegValue_ptr :: "handle \<Rightarrow> nat \<Rightarrow> u8" where
  "vrEmuTms9918aRegValue_ptr h reg =
     (case h of NULL \<Rightarrow> 0 | Instance t \<Rightarrow> vrEmuTms9918aRegValue t reg)"

definition vrEmuTms9918aVramValue_ptr :: "handle \<Rightarrow> u16 \<Rightarrow> u8" where
  "vrEmuTms9918aVramValue_ptr h addr =
     (case h of NULL \<Rightarrow> 0 | Instance t \<Rightarrow> vrEmuTms9918aVramValue t addr)"

definition vrEmuTms9918aDisplayEnabled_ptr :: "handle \<Rightarrow> int" where
  "vrEmuTms9918aDisplayEnabled_ptr h =
     (case h of NULL \<Rightarrow> 0 | Instance t \<Rightarrow> vrEmuTms9918aDisplayEnabled t)"

section \<open>Vocabulary for properties of a sprite pass\<close>

text \<open>A scanline buffer of zeros.\<close>

definition zero_pixels :: pixels where
  "zero_pixels = (\<lambda>_. 0)"

text \<open>
  What a sprite pass leaves alone: everything but \<open>status\<close> and \<open>rowSpriteBits\<close>.
\<close>

definition same_memory :: "VrEmuTms9918a \<Rightarrow> VrEmuTms9918a \<Rightarrow> bool" where
  "same_memory t t' \<longleftrightarrow>
     vram t' = vram t \<and> registers t' = registers t \<and> lastMode t' = lastMode t \<and>
     currentAddress t' = currentAddress t \<and> mode t' = mode t"

text \<open>Columns marked in the row bitmap stay marked; a COL bit that is set stays set.\<close>

definition marks_kept :: "VrEmuTms9918a \<Rightarrow> VrEmuTms9918a \<Rightarrow> bool" where
  "marks_kept t t' \<longleftrightarrow> (\<forall>x. rowSpriteBits t x \<noteq> 0 \<longrightarrow> rowSpriteBits t' x \<noteq> 0)"

definition col_kept :: "VrEmuTms9918a \<Rightarrow> VrEmuTms9918a \<Rightarrow> bool" where
  "col_kept t t' \<longleftrightarrow> (status t AND STATUS_COL \<noteq> 0 \<longrightarrow> status t' AND STATUS_COL \<noteq> 0)"

text \<open>Byte \<open>k\<close> of the attribute record of slot \<open>i\<close>.\<close>

definition sprite_attr :: "VrEmuTms9918a \<Rightarrow> nat \<Rightarrow> nat \<Rightarrow> u8" where
  "sprite_attr t i k =
     vram t (nat (uint (tmsSpriteAttrTableAddr t) + int i * SPRITE_ATTR_BYTES + int k))"

text \<open>The tests the slot loop makes on attribute byte 0: the terminator, and whether line
  \<open>y\<close> shows a row of the sprite.\<close>

definition slot_terminates :: "VrEmuTms9918a \<Rightarrow> nat \<Rightarrow> bool" where
  "slot_terminates t i \<longleftrightarrow> uint (sprite_attr t i 0) = LAST_SPRITE_VPOS"

definition slot_visible :: "VrEmuTms9918a \<Rightarrow> u8 \<Rightarrow> nat \<Rightarrow> bool" where
  "slot_visible t y i \<longleftrightarrow>
     sprite_row_on_line t (sprite_pattern_row t y (uint (sprite_attr t i 0)))"

text \<open>Slot \<open>j\<close> is reached and drawn by a pass that is at slot \<open>i\<close> with \<open>shown\<close>
  sprites shown: no terminator from \<open>i\<close> to \<open>j\<close>, and \<open>j\<close> is among the first four visible.\<close>

definition slot_drawn_from :: "VrEmuTms9918a \<Rightarrow> u8 \<Rightarrow> nat \<Rightarrow> nat \<Rightarrow> nat \<Rightarrow> bool" where
  "slot_drawn_from t y i shown j \<longleftrightarrow>
     i \<le> j \<and> j < 32 \<and> (\<forall>k \<in> set [i..<Suc j]. \<not> slot_terminates t k) \<and> slot_visible t y j \<and>
     shown + length (filter (slot_visible t y) [i..<j]) < 4"

text \<open>Slot \<open>j\<close> is rendered on line \<open>y\<close>: reached from slot 0 with nothing shown yet.\<close>

definition slot_rendered :: "VrEmuTms9918a \<Rightarrow> u8 \<Rightarrow> nat \<Rightarrow> bool" where
  "slot_rendered t y j \<longleftrightarrow> slot_drawn_from t y 0 0 j"

text \<open>The sprite of slot \<open>i\<close> has a set pattern bit at screen column \<open>x\<close> on line \<open>y\<close>:
  drawing it alone, on an empty row bitmap, marks \<open>x\<close>.\<close>

definition slot_marks :: "VrEmuTms9918a \<Rightarrow> u8 \<Rightarrow> nat \<Rightarrow> nat \<Rightarrow> bool" where
  "slot_marks t y i x \<longleftrightarrow>
     (case draw_sprite
             ((if tmsSpriteSize t \<noteq> 0 then 16 else 8) * (if tmsSpriteMag t \<noteq> 0 then 2 else 1))
             (tmsSpritePatternTableAddr t)
             (uint (tmsSpriteAttrTableAddr t) + int i * SPRITE_ATTR_BYTES)
             (sprite_pattern_row t y (uint (sprite_attr t i 0)))
             (sprite_attr t i 3 AND 0x0f)
             (t\<lparr> status := 0, rowSpriteBits := (\<lambda>_. 0) \<rparr>, zero_pixels) of
        None \<Rightarrow> False
      | Some tp \<Rightarrow> rowSpriteBits (fst tp) x \<noteq> 0)"

section \<open>Concrete inputs\<close>

text \<open>Text mode with the display enabled (R1 = 0x50) and INT pending.\<close>

definition text_state :: VrEmuTms9918a where
  "text_state =
     zeroed\<lparr> registers := (\<lambda>_. 0)(1 := 0x50), status := 0x80, mode := TMS_MODE_TEXT \<rparr>"


text \<open>
  Graphics I with the display enabled (R1 = 0x40); slots 0 to 4 hold sprites with vPos 0,
  which lines 1 to 8 show, and slot 5 holds the terminator.
\<close>

definition five_state :: VrEmuTms9918a where
  "five_state = zeroed\<lparr> vram := (\<lambda>_. 0)(20 := 0xD0), registers := (\<lambda>_. 0)(1 := 0x40) \<rparr>"

section \<open>Proof setup\<close>

declare sprite_columns.simps [simp del]
declare sprite_slots.simps [simp del]
declare for_loop.simps [simp del]
declare fill_while.simps [simp del]

lemmas constant_defs =
  TMS_NUM_REGISTERS_def TMS_REG_0_def TMS_REG_1_def TMS_REG_2_def TMS_REG_3_def TMS_REG_4_def
  TMS_REG_5_def TMS_REG_6_def TMS_REG_7_def TMS9918A_PIXELS_X_def TMS9918A_PIXELS_Y_def
  TMS_TRANSPARENT_def TMS_BLACK_def VRAM_SIZE_def GRAPHICS_NUM_COLS_def GRAPHICS_CHAR_WIDTH_def
  TEXT_NUM_COLS_def TEXT_CHAR_WIDTH_def MAX_SPRITES_def SPRITE_ATTR_BYTES_def
  LAST_SPRITE_VPOS_def MAX_SCANLINE_SPRITES_def STATUS_INT_def STATUS_5S_def STATUS_COL_def

lemmas decode_defs =
  tmsMode_def tmsSpriteSize_def tmsSpriteMag_def tmsNameTableAddr_def tmsColorTableAddr_def
  tmsPatternTableAddr_def tmsSpriteAttrTableAddr_def tmsSpritePatternTableAddr_def
  vrEmuTms9918aDisplayEnabled_def tmsMainBgColor_def tmsMainFgColor_def tmsFgColor_def
  tmsBgColor_def

lemmas sprite_defs =
  vrEmuTms9918aOutputSprites_def sprite_slots.simps sprite_slot_def draw_sprite_def
  sprite_columns.simps sprite_pattern_row_def sprite_row_on_line_def sprite_plot_def
  vram_at_def c_div2_def

lemmas render_defs = vrEmuTms9918aScanLine_def vrEmuTms9918aGraphicsIScanLine_def
  vrEmuTms9918aGraphicsIIScanLine_def vrEmuTms9918aTextScanLine_def
  vrEmuTms9918aMulticolorScanLine_def for_loop.simps fill_while.simps

lemmas slot_defs = slot_rendered_def slot_drawn_from_def slot_marks_def slot_visible_def
  slot_terminates_def sprite_attr_def

section \<open>The address port\<close>




text \<open>
  What a write in second phase does to any state: the address field is or-ed with the six
  high bits, or the low byte of the address field goes into the register.
\<close>

lemma second_phase_write:
  "lastMode t \<noteq> 0 \<Longrightarrow>
     (b2 AND 0x80 = 0 \<longrightarrow>
        vrEmuTms9918aWriteAddr t b2 =
          t\<lparr> currentAddress := currentAddress t OR push_bit 8 (ucast (b2 AND 0x3f)),
             lastMode := 0 \<rparr>) \<and>
     (b2 AND 0x80 \<noteq> 0 \<longrightarrow>
        registers (vrEmuTms9918aWriteAddr t b2) =
          (registers t)(unat (b2 AND 0x07) := ucast (currentAddress t AND 0xff)) \<and>
        currentAddress (vrEmuTms9918aWriteAddr t b2) = currentAddress t \<and>
        lastMode (vrEmuTms9918aWriteAddr t b2) = 0)"
  by (simp add: vrEmuTms9918aWriteAddr_def Let_def)



section \<open>The status port\<close>

text \<open>
  C3. read_status returns the status byte as it was and changes nothing in the state but
  the status byte, where it clears bits 7 (INT) and 5 (COL) and keeps bit 6 (5S) and bits
  0..4; a second read right after returns the first value with bits 7 and 5 cleared.
\<close>

theorem read_status_clears_int_col:
  "fst (vrEmuTms9918aReadStatus t) = status t \<and>
   snd (vrEmuTms9918aReadStatus t) = t\<lparr> status := status t AND NOT (0x80 OR 0x20) \<rparr> \<and>
   status (snd (vrEmuTms9918aReadStatus t)) AND 0x80 = 0 \<and>
   status (snd (vrEmuTms9918aReadStatus t)) AND 0x20 = 0 \<and>
   status (snd (vrEmuTms9918aReadStatus t)) AND 0x5F = status t AND 0x5F \<and>
   fst (vrEmuTms9918aReadStatus (snd (vrEmuTms9918aReadStatus t))) =
     status t AND NOT (0x80 OR 0x20)"
  by (simp add: vrEmuTms9918aReadStatus_def STATUS_INT_def STATUS_COL_def and.assoc)

section \<open>The data port\<close>

lemma vram_mask_16: "(0x3fff :: u16) = mask 14"
  by (simp add: mask_eq_exp_minus_1)

lemma vram_index: "unat ((w :: u16) AND 0x3fff) = unat w mod 16384"
proof -
  have "unat (take_bit 14 w) = take_bit 14 (unat w)"
    by (rule unsigned_take_bit_eq)
  then show ?thesis
    unfolding vram_mask_16 by (simp add: take_bit_eq_mask [symmetric] take_bit_eq_mod)
qed

lemma vram_index_add: "unat (((w :: u16) + of_nat k) AND 0x3fff) = (unat w + k) mod 16384"
proof -
  have "unat (w + of_nat k) = (unat w + k) mod 65536"
    by (simp add: unat_word_ariths unat_of_nat mod_simps)
  moreover have "(unat w + k) mod 65536 mod 16384 = (unat w + k) mod 16384"
    by (rule mod_mod_cancel) simp
  ultimately show ?thesis by (simp add: vram_index)
qed

lemma currentAddress_write_seq:
  "currentAddress (write_seq t bs) = currentAddress t + of_nat (length bs)"
  by (induction bs arbitrary: t) (simp_all add: vrEmuTms9918aWriteData_def)

lemma write_seq_vram_other:
  "(\<forall>i<length bs. (unat (currentAddress t) + i) mod 16384 \<noteq> a) \<Longrightarrow>
     vram (write_seq t bs) a = vram t a"
proof (induction bs arbitrary: t)
  case Nil
  then show ?case by simp
next
  case (Cons b bs)
  let ?t = "vrEmuTms9918aWriteData t b"
  have A: "currentAddress ?t = currentAddress t + of_nat 1"
    by (simp add: vrEmuTms9918aWriteData_def)
  have "(unat (currentAddress ?t) + i) mod 16384 \<noteq> a" if "i < length bs" for i
  proof -
    have "(unat (currentAddress ?t) + i) mod 16384 =
          (unat (currentAddress ?t) mod 16384 + i) mod 16384"
      by (simp add: mod_add_left_eq)
    also have "unat (currentAddress ?t) mod 16384 = (unat (currentAddress t) + 1) mod 16384"
      unfolding A using vram_index_add [of "currentAddress t" 1] by (simp add: vram_index)
    also have "((unat (currentAddress t) + 1) mod 16384 + i) mod 16384 =
               (unat (currentAddress t) + Suc i) mod 16384"
      by (simp add: mod_add_left_eq)
    finally show ?thesis
      using Cons.prems that by auto
  qed
  then have "vram (write_seq ?t bs) a = vram ?t a"
    using Cons.IH [of ?t] by blast
  moreover have "vram ?t a = vram t a"
    using Cons.prems [rule_format, of 0]
    by (simp add: vrEmuTms9918aWriteData_def vram_index)
  ultimately show ?case by simp
qed

lemma mod_shift_neq: "0 < k \<Longrightarrow> k < (16384::nat) \<Longrightarrow> (a + k) mod 16384 \<noteq> a mod 16384"
proof
  assume k: "0 < k" "k < 16384" and e: "(a + k) mod 16384 = a mod 16384"
  have "(16384::nat) dvd (a + k) - a"
    using e by (subst mod_eq_dvd_iff_nat [symmetric]) simp_all
  then have "(16384::nat) \<le> k"
    using k by (auto dest: dvd_imp_le)
  with k show False by simp
qed

lemma write_seq_vram_at:
  "i < length bs \<Longrightarrow> length bs \<le> 16384 \<Longrightarrow>
     vram (write_seq t bs) ((unat (currentAddress t) + i) mod 16384) = bs ! i"
proof (induction bs arbitrary: t i)
  case Nil
  then show ?case by simp
next
  case (Cons b bs)
  let ?t = "vrEmuTms9918aWriteData t b"
  have A: "unat (currentAddress ?t) mod 16384 = (unat (currentAddress t) + 1) mod 16384"
    using vram_index_add [of "currentAddress t" 1]
    by (simp add: vrEmuTms9918aWriteData_def vram_index)
  have shift: "(unat (currentAddress ?t) + j) mod 16384 = (unat (currentAddress t) + Suc j) mod 16384"
    for j
  proof -
    have "(unat (currentAddress ?t) + j) mod 16384 =
          (unat (currentAddress ?t) mod 16384 + j) mod 16384"
      by (simp add: mod_add_left_eq)
    also have "\<dots> = (unat (currentAddress t) + Suc j) mod 16384"
      unfolding A by (simp add: mod_add_left_eq)
    finally show ?thesis .
  qed
  show ?case
  proof (cases i)
    case 0
    have "vram (write_seq ?t bs) (unat (currentAddress t) mod 16384) =
          vram ?t (unat (currentAddress t) mod 16384)"
    proof (rule write_seq_vram_other, intro allI impI)
      fix j assume "j < length bs"
      then have "0 < Suc j" "Suc j < 16384" using Cons.prems by simp_all
      then show "(unat (currentAddress ?t) + j) mod 16384 \<noteq> unat (currentAddress t) mod 16384"
        unfolding shift by (rule mod_shift_neq)
    qed
    then show ?thesis
      using 0 by (simp add: vrEmuTms9918aWriteData_def vram_index)
  next
    case (Suc i')
    then have "vram (write_seq ?t bs) ((unat (currentAddress ?t) + i') mod 16384) = bs ! i'"
      using Cons.prems by (intro Cons.IH) simp_all
    then show ?thesis
      using Suc by (simp add: shift)
  qed
qed

lemma read_seq_length: "length (fst (read_seq t n)) = n"
  by (induction n arbitrary: t) (simp_all add: split_beta vrEmuTms9918aReadData_def)

lemma read_seq_nth:
  "i < n \<Longrightarrow> fst (read_seq t n) ! i = vram t ((unat (currentAddress t) + i) mod 16384)"
proof (induction n arbitrary: t i)
  case 0
  then show ?case by simp
next
  case (Suc n)
  let ?t = "snd (vrEmuTms9918aReadData t)"
  have A: "unat (currentAddress ?t) mod 16384 = (unat (currentAddress t) + 1) mod 16384"
    using vram_index_add [of "currentAddress t" 1]
    by (simp add: vrEmuTms9918aReadData_def vram_index)
  have V: "vram ?t = vram t"
    by (simp add: vrEmuTms9918aReadData_def)
  show ?case
  proof (cases i)
    case 0
    then show ?thesis
      by (simp add: split_beta vrEmuTms9918aReadData_def vram_index)
  next
    case (Suc i')
    then have "fst (read_seq ?t n) ! i' = vram ?t ((unat (currentAddress ?t) + i') mod 16384)"
      using Suc.prems by (intro Suc.IH) simp
    also have "(unat (currentAddress ?t) + i') mod 16384 =
               (unat (currentAddress ?t) mod 16384 + i') mod 16384"
      by (simp add: mod_add_left_eq)
    also have "\<dots> = (unat (currentAddress t) + Suc i') mod 16384"
      unfolding A by (simp add: mod_add_left_eq)
    finally show ?thesis
      using Suc V by (simp add: split_beta)
  qed
qed

text \<open>
  C4. A sequence of at most 16384 bytes written through the data port from address \<open>A\<close>
  is read back unchanged once the address is set to \<open>A\<close> again (or to any value with the
  same low 14 bits); byte \<open>i\<close> lies in VRAM cell \<open>(A + i) mod 16384\<close> and no other cell
  is written.
\<close>

theorem write_then_read_back:
  "length bs \<le> 16384 \<Longrightarrow> A AND 0x3fff = currentAddress t AND 0x3fff \<Longrightarrow>
     fst (read_seq ((write_seq t bs)\<lparr> currentAddress := A \<rparr>) (length bs)) = bs \<and>
     (\<forall>i<length bs. vram (write_seq t bs) (unat ((currentAddress t + of_nat i) AND 0x3fff)) = bs ! i) \<and>
     (\<forall>a. (\<forall>i<length bs. a \<noteq> unat ((currentAddress t + of_nat i) AND 0x3fff)) \<longrightarrow>
          vram (write_seq t bs) a = vram t a)"
proof (intro conjI allI impI)
  assume len: "length bs \<le> 16384" and same: "A AND 0x3fff = currentAddress t AND 0x3fff"
  let ?r = "(write_seq t bs)\<lparr> currentAddress := A \<rparr>"
  have m: "unat A mod 16384 = unat (currentAddress t) mod 16384"
    using arg_cong [OF same, of unat] by (simp add: vram_index)
  show "fst (read_seq ?r (length bs)) = bs"
  proof (rule nth_equalityI)
    show "length (fst (read_seq ?r (length bs))) = length bs"
      by (rule read_seq_length)
    fix i assume "i < length (fst (read_seq ?r (length bs)))"
    then have i: "i < length bs" by (simp add: read_seq_length)
    have "fst (read_seq ?r (length bs)) ! i = vram ?r ((unat (currentAddress ?r) + i) mod 16384)"
      using i by (rule read_seq_nth)
    also have "(unat (currentAddress ?r) + i) mod 16384 = (unat A mod 16384 + i) mod 16384"
      by (simp add: mod_add_left_eq)
    also have "\<dots> = (unat (currentAddress t) + i) mod 16384"
      unfolding m by (simp add: mod_add_left_eq)
    also have "vram ?r \<dots> = bs ! i"
      using write_seq_vram_at [OF i len, of t] by simp
    finally show "fst (read_seq ?r (length bs)) ! i = bs ! i" .
  qed
next
  fix i assume "length bs \<le> 16384" "i < length bs"
  then show "vram (write_seq t bs) (unat ((currentAddress t + of_nat i) AND 0x3fff)) = bs ! i"
    by (simp add: vram_index_add write_seq_vram_at)
next
  fix a assume "\<forall>i<length bs. a \<noteq> unat ((currentAddress t + of_nat i) AND 0x3fff)"
  then show "vram (write_seq t bs) a = vram t a"
    by (intro write_seq_vram_other) (auto simp: vram_index_add)
qed

theorem write_then_read_back_witness:
  "length [0x10, 0x20 :: u8] \<le> 16384 \<and>
   fst (read_seq ((write_seq (zeroed\<lparr> currentAddress := 0x3fff \<rparr>) [0x10, 0x20])
                    \<lparr> currentAddress := 0x3fff \<rparr>) (length [0x10, 0x20 :: u8])) = [0x10, 0x20]"
proof -
  have len: "length [0x10, 0x20 :: u8] \<le> 16384"
    by simp
  have same: "(0x3fff :: u16) AND 0x3fff =
      currentAddress (zeroed\<lparr> currentAddress := 0x3fff \<rparr>) AND 0x3fff"
    by simp
  show ?thesis
    using len write_then_read_back [OF len same, THEN conjunct1] by (rule conjI)
qed

section \<open>Reset\<close>

lemma reset_fields:
  "currentAddress (vrEmuTms9918aReset t) = 0 \<and> lastMode (vrEmuTms9918aReset t) = 0 \<and>
   status (vrEmuTms9918aReset t) = 0 \<and>
   (\<forall>r<8. registers (vrEmuTms9918aReset t) r = 0) \<and>
   (\<forall>a<16384. vram (vrEmuTms9918aReset t) a = 0xff)"
  by (simp add: vrEmuTms9918aReset_def constant_defs)

text \<open>
  C2. Reset zeroes the address, the latch phase, the status byte and the registers and fills
  VRAM with 0xFF, but it does not touch the cached mode: after R1 = 0x10 has selected Text,
  a reset leaves the cache at Text although the zeroed registers decode to Graphics I.
\<close>

theorem reset_leaves_cached_mode:
  "mode (vrEmuTms9918aReset t) = mode t \<and>
   mode (vrEmuTms9918aNew t) = mode t \<and>
   mode (vrEmuTms9918aReset
           (vrEmuTms9918aWriteAddr (vrEmuTms9918aWriteAddr (vrEmuTms9918aReset zeroed) 0x10) 0x81))
     = TMS_MODE_TEXT \<and>
   tmsMode (vrEmuTms9918aReset
           (vrEmuTms9918aWriteAddr (vrEmuTms9918aWriteAddr (vrEmuTms9918aReset zeroed) 0x10) 0x81))
     = TMS_MODE_GRAPHICS_I"
  by (simp add: vrEmuTms9918aReset_def vrEmuTms9918aNew_def vrEmuTms9918aWriteAddr_def
      tmsMode_def zeroed_def constant_defs Let_def)

section \<open>The blanked display\<close>

text \<open>
  C8, as stated, fails: with the display disabled the first byte of the line is 1.
\<close>

theorem blank_line_is_not_index_0:
  "registers zeroed TMS_REG_1 AND 0x40 = 0 \<and>
   vrEmuTms9918aScanLine zeroed 0 zero_pixels \<noteq> None \<and>
   snd (the (vrEmuTms9918aScanLine zeroed 0 zero_pixels)) 0 = 1"
  by (simp add: vrEmuTms9918aScanLine_def decode_defs zeroed_def zero_pixels_def constant_defs)

lemma blank_backdrop:
  "registers t TMS_REG_1 AND 0x40 = 0 \<Longrightarrow> tmsMainBgColor t = TMS_BLACK"
  by (simp add: tmsMainBgColor_def vrEmuTms9918aDisplayEnabled_def constant_defs)

text \<open>
  C8, amended. With the display disabled (R1 bit 6 clear), scanline(y) for every \<open>y\<close>
  leaves the state alone and fills the 256 bytes of the buffer with TMS_BLACK, colour
  index 1.
\<close>

theorem blank_line_is_black:
  "registers t TMS_REG_1 AND 0x40 = 0 \<Longrightarrow>
     vrEmuTms9918aScanLine t y pixels =
       Some (t, (\<lambda>x. if x < 256 then TMS_BLACK else pixels x)) \<and> TMS_BLACK = 1"
proof -
  assume off: "registers t TMS_REG_1 AND 0x40 = 0"
  have "vrEmuTms9918aScanLine t y pixels =
      Some (t, (\<lambda>x. if int x < TMS9918A_PIXELS_X then tmsMainBgColor t else pixels x))"
    using off by (simp add: vrEmuTms9918aScanLine_def vrEmuTms9918aDisplayEnabled_def)
  moreover have "(\<lambda>x. if int x < TMS9918A_PIXELS_X then tmsMainBgColor t else pixels x) =
      (\<lambda>x. if x < 256 then TMS_BLACK else pixels x)"
    by (simp add: fun_eq_iff blank_backdrop [OF off] TMS9918A_PIXELS_X_def)
  ultimately show ?thesis
    by (simp add: TMS_BLACK_def)
qed

theorem blank_line_is_black_witness:
  "registers zeroed TMS_REG_1 AND 0x40 = 0 \<and>
   vrEmuTms9918aScanLine zeroed 7 zero_pixels =
     Some (zeroed, (\<lambda>x. if x < 256 then TMS_BLACK else zero_pixels x))"
proof -
  have h: "registers zeroed TMS_REG_1 AND 0x40 = 0"
    by (simp add: zeroed_def)
  show ?thesis
    using h blank_line_is_black [OF h, of 7 zero_pixels, THEN conjunct1] by (rule conjI)
qed

section \<open>The null instance\<close>

text \<open>
  C10. On a NULL pointer reset, scanline and the register, VRAM and display-enabled
  accessors return at once (with 0 where they return a byte), but write_address,
  write_data, read_status, read_data and read_data_no_inc dereference the pointer.
\<close>

theorem null_handle_dereferenced:
  "vrEmuTms9918aReadStatus_ptr NULL = None \<and>
   vrEmuTms9918aReadData_ptr NULL = None \<and>
   vrEmuTms9918aReadDataNoInc_ptr NULL = None \<and>
   vrEmuTms9918aWriteData_ptr NULL d = None \<and>
   vrEmuTms9918aWriteAddr_ptr NULL d = None \<and>
   vrEmuTms9918aReset_ptr NULL = NULL \<and>
   vrEmuTms9918aScanLine_ptr NULL y pixels = Some (NULL, pixels) \<and>
   vrEmuTms9918aRegValue_ptr NULL r = 0 \<and>
   vrEmuTms9918aVramValue_ptr NULL a = 0 \<and>
   vrEmuTms9918aDisplayEnabled_ptr NULL = 0"
  by (simp add: vrEmuTms9918aReadStatus_ptr_def vrEmuTms9918aReadData_ptr_def
      vrEmuTms9918aReadDataNoInc_ptr_def vrEmuTms9918aWriteData_ptr_def
      vrEmuTms9918aWriteAddr_ptr_def vrEmuTms9918aReset_ptr_def vrEmuTms9918aScanLine_ptr_def
      vrEmuTms9918aRegValue_ptr_def vrEmuTms9918aVramValue_ptr_def
      vrEmuTms9918aDisplayEnabled_ptr_def deref_def)

section \<open>The sprite engine: what a pass keeps\<close>

lemma same_memory_refl: "same_memory t t"
  by (simp add: same_memory_def)


lemma col_bit_or: "(s :: u8) AND 0x20 \<noteq> 0 \<Longrightarrow> (s OR b) AND 0x20 \<noteq> 0"
  by (metis bit.conj_disj_distrib2 or_eq_0_iff)



lemma sprite_plot_frame:
  "same_memory (fst tp) (fst (sprite_plot c x tp)) \<and>
   marks_kept (fst tp) (fst (sprite_plot c x tp)) \<and>
   col_kept (fst tp) (fst (sprite_plot c x tp))"
  by (simp add: sprite_plot_def same_memory_def marks_kept_def col_kept_def Let_def
      STATUS_COL_def col_bit_or)

lemma sprite_columns_frame:
  "sprite_columns endX po c sx sb pb pby tp = Some tp' \<Longrightarrow>
     same_memory (fst tp) (fst tp') \<and> marks_kept (fst tp) (fst tp') \<and> col_kept (fst tp) (fst tp')"
proof (induction endX po c sx sb pb pby tp rule: sprite_columns.induct)
  case (1 endX po c sx sb pb pby tp)
  let ?tp1 = "if sx \<ge> 0 \<and> pby AND drop_bit pb 0x80 \<noteq> 0
              then sprite_plot c (nat sx) tp else tp"
  have step: "same_memory (fst tp) (fst ?tp1) \<and> marks_kept (fst tp) (fst ?tp1) \<and>
              col_kept (fst tp) (fst ?tp1)"
    using sprite_plot_frame [of tp c "nat sx"]
    by (simp add: same_memory_def marks_kept_def col_kept_def)
  show ?case
  proof (cases "\<not> sx < endX \<or> sx \<ge> TMS9918A_PIXELS_X")
    case True
    then have "tp' = tp"
      using "1.prems" by (subst (asm) sprite_columns.simps) (auto split: if_splits)
    then show ?thesis
      by (simp add: same_memory_def marks_kept_def col_kept_def)
  next
    case False
    then have run: "sx < endX" "\<not> sx \<ge> TMS9918A_PIXELS_X" by auto
    have "same_memory (fst ?tp1) (fst tp') \<and> marks_kept (fst ?tp1) (fst tp') \<and>
          col_kept (fst ?tp1) (fst tp')"
    proof (cases "tmsSpriteMag (fst ?tp1) = 0 \<or> sb AND 0x01 \<noteq> 0")
      case adv: True
      show ?thesis
      proof (cases "pb + 1 = 8")
        case True
        from "1.prems" run adv True obtain refill where
          r: "vram_at (fst ?tp1) (po + 16) = Some refill" and
          rest: "sprite_columns endX po c (sx + 1) (sb + 1) 0 refill ?tp1 = Some tp'"
          by (subst (asm) sprite_columns.simps) (auto simp: Let_def split: if_splits bind_splits)
        show ?thesis
          using "1.IH"(1) [OF _ _ refl adv True r rest] run by simp
      next
        case False
        from "1.prems" run adv False have
          rest: "sprite_columns endX po c (sx + 1) (sb + 1) (pb + 1) pby ?tp1 = Some tp'"
          by (subst (asm) sprite_columns.simps) (auto simp: Let_def split: if_splits bind_splits)
        show ?thesis
          using "1.IH"(2) [OF _ _ refl adv False rest] run by simp
      qed
    next
      case noadv: False
      from "1.prems" run noadv have
        rest: "sprite_columns endX po c (sx + 1) (sb + 1) pb pby ?tp1 = Some tp'"
        by (subst (asm) sprite_columns.simps) (auto simp: Let_def split: if_splits bind_splits)
      show ?thesis
        using "1.IH"(3) [OF _ _ refl noadv rest] run by simp
    qed
    with step show ?thesis
      by (auto simp: same_memory_def marks_kept_def col_kept_def)
  qed
qed







lemma draw_sprite_frame:
  "draw_sprite sz pa aa row c tp = Some tp' \<Longrightarrow>
     same_memory (fst tp) (fst tp') \<and> marks_kept (fst tp) (fst tp') \<and> col_kept (fst tp) (fst tp')"
  by (auto simp: draw_sprite_def Let_def split: bind_splits dest: sprite_columns_frame)




lemma sprite_slot_frame:
  "sprite_slot y sz at pa i shown tp = Some r \<Longrightarrow>
     (\<forall>tp'. r = Break tp' \<or> (\<exists>n. r = Continue n tp') \<longrightarrow>
        same_memory (fst tp) (fst tp') \<and> col_kept (fst tp) (fst tp'))"
proof (intro allI impI)
  fix tp'
  assume res: "sprite_slot y sz at pa i shown tp = Some r"
    and r: "r = Break tp' \<or> (\<exists>n. r = Continue n tp')"
  have d0: "same_memory (fst tp) (fst tp2) \<and> col_kept (fst tp) (fst tp2)"
    if "draw_sprite sz pa a row c
          ((fst tp)\<lparr> rowSpriteBits :=
               (\<lambda>x. if int x < TMS9918A_PIXELS_X then 0 else rowSpriteBits (fst tp) x) \<rparr>,
           snd tp) = Some tp2" for a row c tp2
    using draw_sprite_frame [OF that] by (auto simp: same_memory_def col_kept_def)
  have d1: "same_memory (fst tp) (fst tp2) \<and> col_kept (fst tp) (fst tp2)"
    if "draw_sprite sz pa a row c tp = Some tp2" for a row c tp2
    using draw_sprite_frame [OF that] by simp
  from res r show "same_memory (fst tp) (fst tp') \<and> col_kept (fst tp) (fst tp')"
    unfolding sprite_slot_def Let_def
    by (auto split: bind_splits if_splits
        simp: same_memory_def col_kept_def STATUS_COL_def col_bit_or
        dest!: d0 d1)
qed



lemma sprite_slots_frame:
  "sprite_slots y sz at pa i shown tp = Some tp' \<Longrightarrow>
     same_memory (fst tp) (fst tp') \<and> col_kept (fst tp) (fst tp')"
proof (induction y sz at pa i shown tp rule: sprite_slots.induct)
  case (1 y sz at pa i shown tp)
  show ?case
  proof (cases "int i < MAX_SPRITES")
    case False
    then have "tp' = tp"
      using "1.prems" by (subst (asm) sprite_slots.simps) simp
    then show ?thesis
      by (simp add: same_memory_def col_kept_def)
  next
    case True
    then obtain r where r: "sprite_slot y sz at pa i shown tp = Some r"
      using "1.prems" by (subst (asm) sprite_slots.simps) (auto split: option.splits)
    show ?thesis
    proof (cases r)
      case (Break tp1)
      then have "tp' = tp1"
        using "1.prems" True r by (subst (asm) sprite_slots.simps) simp
      then show ?thesis
        using sprite_slot_frame [OF r] Break by blast
    next
      case (Continue n tp1)
      then have rest: "sprite_slots y sz at pa (i + 1) n tp1 = Some tp'"
        using "1.prems" True r by (subst (asm) sprite_slots.simps) simp
      have a: "same_memory (fst tp) (fst tp1) \<and> col_kept (fst tp) (fst tp1)"
        using sprite_slot_frame [OF r] Continue by blast
      have b: "same_memory (fst tp1) (fst tp') \<and> col_kept (fst tp1) (fst tp')"
        using "1.IH" [OF _ r Continue rest] True by simp
      from a b show ?thesis
        by (auto simp: same_memory_def col_kept_def)
    qed
  qed
qed











section \<open>Sprite collisions\<close>




section \<open>The fifth sprite\<close>

text \<open>
  C5. On line 0 of \<open>five_state\<close> no sprite is visible and the terminator in slot 5
  leaves 5 in the index bits. On line 1 slots 0 to 4 are visible; slot 4, the fifth, stops
  the pass and sets 5S, but its index is or-ed into the bits already there: the status is
  0x45, whose index bits read 5 and not 4.
\<close>

theorem fifth_sprite_index_mixed:
  "map_option (status \<circ> fst) (vrEmuTms9918aScanLine five_state 0 zero_pixels) = Some 0x05 \<and>
   map_option (status \<circ> fst)
     (do { tp \<leftarrow> vrEmuTms9918aScanLine five_state 0 zero_pixels;
           vrEmuTms9918aScanLine (fst tp) 1 (snd tp) }) = Some 0x45 \<and>
   filter (slot_visible five_state 1) [0..<5] = [0, 1, 2, 3, 4] \<and>
   filter (slot_terminates five_state) [0..<5] = [] \<and>
   (0x45 :: u8) AND 0x1F = 5"
  by (simp add: render_defs sprite_defs slot_defs decode_defs constant_defs five_state_def
      zeroed_def zero_pixels_def Let_def upt_rec)

section \<open>The scanline dispatcher keeps the address\<close>

lemma output_sprites_frame:
  "vrEmuTms9918aOutputSprites t y pixels = Some tp' \<Longrightarrow> same_memory t (fst tp')"
proof -
  assume "vrEmuTms9918aOutputSprites t y pixels = Some tp'"
  then have "same_memory (if y = 0 then t\<lparr> status := 0 \<rparr> else t) (fst tp')"
    using sprite_slots_frame
      [of y _ _ _ 0 0 "(if y = 0 then t\<lparr> status := 0 \<rparr> else t, pixels)" tp']
    by (simp add: vrEmuTms9918aOutputSprites_def Let_def)
  then show ?thesis
    by (simp add: same_memory_def split: if_splits)
qed

lemma renderer_frame:
  "vrEmuTms9918aGraphicsIScanLine t y pixels = Some tp' \<Longrightarrow> same_memory t (fst tp')"
  "vrEmuTms9918aGraphicsIIScanLine t y pixels = Some tp' \<Longrightarrow> same_memory t (fst tp')"
  "vrEmuTms9918aTextScanLine t y pixels = Some tp' \<Longrightarrow> fst tp' = t"
  "vrEmuTms9918aMulticolorScanLine t y pixels = Some tp' \<Longrightarrow> same_memory t (fst tp')"
  by (auto simp: vrEmuTms9918aGraphicsIScanLine_def vrEmuTms9918aGraphicsIIScanLine_def
      vrEmuTms9918aTextScanLine_def vrEmuTms9918aMulticolorScanLine_def Let_def
      split: bind_splits dest: output_sprites_frame)

lemma scanline_frame:
  "vrEmuTms9918aScanLine t y pixels = Some tp' \<Longrightarrow> same_memory t (fst tp')"
proof -
  assume run: "vrEmuTms9918aScanLine t y pixels = Some tp'"
  show ?thesis
  proof (cases "vrEmuTms9918aDisplayEnabled t = 0 \<or> uint y \<ge> TMS9918A_PIXELS_Y")
    case True
    then show ?thesis
      using run by (auto simp: vrEmuTms9918aScanLine_def same_memory_refl)
  next
    case False
    then obtain tp where
      r: "(case mode t of
             TMS_MODE_GRAPHICS_I \<Rightarrow> vrEmuTms9918aGraphicsIScanLine t y pixels
           | TMS_MODE_GRAPHICS_II \<Rightarrow> vrEmuTms9918aGraphicsIIScanLine t y pixels
           | TMS_MODE_TEXT \<Rightarrow> vrEmuTms9918aTextScanLine t y pixels
           | TMS_MODE_MULTICOLOR \<Rightarrow> vrEmuTms9918aMulticolorScanLine t y pixels) = Some tp"
      and fin: "tp' = (if uint y = TMS9918A_PIXELS_Y - 1
                       then ((fst tp)\<lparr> status := status (fst tp) OR STATUS_INT \<rparr>, snd tp)
                       else tp)"
      using run by (auto simp: vrEmuTms9918aScanLine_def split: bind_splits)
    have "same_memory t (fst tp)"
      using r renderer_frame [of t y pixels tp]
      by (cases "mode t") (simp_all add: same_memory_refl)
    then show ?thesis
      using fin by (simp add: same_memory_def)
  qed
qed

lemma six_bit_mask: "(0x3f :: u8) = mask 6"
  by (simp add: mask_eq_exp_minus_1)

lemma high_bits_in_range: "take_bit 14 (push_bit 8 (ucast ((d :: u8) AND 0x3f)) :: u16) =
    push_bit 8 (ucast (d AND 0x3f))"
  unfolding six_bit_mask by (rule bit_word_eqI) (auto simp: bit_simps)

lemma latch_byte_in_range: "take_bit 14 (ucast (d :: u8) :: u16) = ucast d"
  by (rule bit_word_eqI) (auto simp: bit_simps dest: bit_imp_le_length)

lemma in_range_iff: "(w :: u16) \<le> 0x3FFF \<longleftrightarrow> take_bit 14 w = w"
proof -
  have "take_bit 14 w = w \<longleftrightarrow> unat (take_bit 14 w) = unat w"
    by (simp add: word_unat_eq_iff)
  also have "\<dots> \<longleftrightarrow> unat w mod 16384 = unat w"
    unfolding unsigned_take_bit_eq by (simp add: take_bit_eq_mod)
  also have "\<dots> \<longleftrightarrow> unat w < 16384"
    by (metis mod_less mod_less_divisor zero_less_numeral)
  also have "\<dots> \<longleftrightarrow> w \<le> 0x3FFF"
    by (auto simp: word_le_nat_alt)
  finally show ?thesis by simp
qed

lemma write_addr_in_range:
  "currentAddress t \<le> 0x3FFF \<Longrightarrow> currentAddress (vrEmuTms9918aWriteAddr t d) \<le> 0x3FFF"
  unfolding in_range_iff
  by (simp add: vrEmuTms9918aWriteAddr_def Let_def take_bit_or high_bits_in_range
      latch_byte_in_range)

text \<open>C9, as stated, fails: a data write at 0x3FFF leaves 0x4000 in the address field.\<close>

theorem address_field_exceeds_3fff:
  "\<not> currentAddress
       (vrEmuTms9918aWriteData
          (vrEmuTms9918aWriteAddr (vrEmuTms9918aWriteAddr zeroed 0xFF) 0x3F) 0) \<le> 0x3FFF"
  by (simp add: vrEmuTms9918aWriteData_def vrEmuTms9918aWriteAddr_def zeroed_def)

text \<open>
  C9, amended. The VRAM index of every data-port access, \<open>currentAddress & 0x3FFF\<close>,
  is below 16384. The field itself is a 16-bit counter: write_data and read_data add one
  to it without a mask, reset makes it 0, write_address takes a field within 0..0x3FFF
  to a field within 0..0x3FFF, read_status and scanline leave it alone.
\<close>

theorem effective_address_in_range:
  "currentAddress (vrEmuTms9918aReset t) = 0 \<and>
   (currentAddress t \<le> 0x3FFF \<longrightarrow> currentAddress (vrEmuTms9918aWriteAddr t d) \<le> 0x3FFF) \<and>
   currentAddress (snd (vrEmuTms9918aReadStatus t)) = currentAddress t \<and>
   (vrEmuTms9918aScanLine t y pixels = Some tp' \<longrightarrow> currentAddress (fst tp') = currentAddress t) \<and>
   currentAddress (vrEmuTms9918aWriteData t d) = currentAddress t + 1 \<and>
   currentAddress (snd (vrEmuTms9918aReadData t)) = currentAddress t + 1 \<and>
   unat (currentAddress t AND 0x3fff) < 16384 \<and>
   vram (vrEmuTms9918aWriteData t d) = (vram t)(unat (currentAddress t AND 0x3fff) := d) \<and>
   fst (vrEmuTms9918aReadData t) = vram t (unat (currentAddress t AND 0x3fff)) \<and>
   vrEmuTms9918aReadDataNoInc t = vram t (unat (currentAddress t AND 0x3fff))"
  using scanline_frame [of t y pixels tp'] write_addr_in_range [of t d]
  by (simp add: vrEmuTms9918aReset_def vrEmuTms9918aReadStatus_def vrEmuTms9918aWriteData_def
      vrEmuTms9918aReadData_def vrEmuTms9918aReadDataNoInc_def vram_index same_memory_def)

theorem effective_address_in_range_witness:
  "currentAddress zeroed \<le> 0x3FFF \<and>
   currentAddress (vrEmuTms9918aWriteAddr zeroed 0x12) \<le> 0x3FFF \<and>
   vrEmuTms9918aScanLine zeroed 0 zero_pixels \<noteq> None \<and>
   currentAddress (fst (the (vrEmuTms9918aScanLine zeroed 0 zero_pixels))) = currentAddress zeroed"
proof -
  have a: "currentAddress zeroed \<le> 0x3FFF"
    by (simp add: zeroed_def)
  obtain tp' where s: "vrEmuTms9918aScanLine zeroed 0 zero_pixels = Some tp'"
    by (simp add: vrEmuTms9918aScanLine_def vrEmuTms9918aDisplayEnabled_def zeroed_def
        constant_defs)
  show ?thesis
    using a s effective_address_in_range [of zeroed "0x12" 0 zero_pixels tp'] by simp
qed

section \<open>Scanline 0 and the status byte\<close>

lemma text_line_status:
  "map_option (status \<circ> fst) (vrEmuTms9918aScanLine text_state 0 zero_pixels) = Some 0x80"
  by (simp add: render_defs vram_at_def decode_defs text_state_def zeroed_def zero_pixels_def
      constant_defs Let_def)

text \<open>
  C7, as stated, fails: in Text mode with the display enabled, rendering line 0 leaves a
  pending INT in the status byte.
\<close>

theorem text_line_zero_keeps_status:
  "registers text_state TMS_REG_1 AND 0x40 \<noteq> 0 \<and> mode text_state = TMS_MODE_TEXT \<and>
   status text_state = 0x80 \<and>
   map_option (status \<circ> fst) (vrEmuTms9918aScanLine text_state 0 zero_pixels) = Some 0x80"
  using text_line_status by (simp add: text_state_def zeroed_def constant_defs)

lemma status_irrelevant_on_line_0:
  "vrEmuTms9918aOutputSprites (t\<lparr> status := 0 \<rparr>) 0 pixels = vrEmuTms9918aOutputSprites t 0 pixels"
  by (simp add: vrEmuTms9918aOutputSprites_def tmsSpriteSize_def tmsSpriteMag_def
      tmsSpriteAttrTableAddr_def tmsSpritePatternTableAddr_def)

lemma decode_ignores_status:
  "vram_at (t\<lparr> status := s \<rparr>) i = vram_at t i"
  "tmsFgColor (t\<lparr> status := s \<rparr>) c = tmsFgColor t c"
  "tmsBgColor (t\<lparr> status := s \<rparr>) c = tmsBgColor t c"
  "tmsNameTableAddr (t\<lparr> status := s \<rparr>) = tmsNameTableAddr t"
  "tmsPatternTableAddr (t\<lparr> status := s \<rparr>) = tmsPatternTableAddr t"
  "tmsColorTableAddr (t\<lparr> status := s \<rparr>) = tmsColorTableAddr t"
  "vrEmuTms9918aDisplayEnabled (t\<lparr> status := s \<rparr>) = vrEmuTms9918aDisplayEnabled t"
  "mode (t\<lparr> status := s \<rparr>) = mode t"
  by (simp_all add: vram_at_def decode_defs cong: if_cong)

text \<open>
  C7, amended. With the display enabled and the cached mode one of Graphics I, Graphics II
  and Multicolor, rendering line 0 clears the status byte before the sprite slots are
  evaluated: the slot loop starts from status 0, and the line comes out as from a state
  whose status was 0 already. With the display disabled or in Text mode the sprite engine
  is not called and line 0 leaves the status byte as it was.
\<close>

theorem scanline_zero_clears_status:
  "(registers t TMS_REG_1 AND 0x40 \<noteq> 0 \<longrightarrow> mode t \<noteq> TMS_MODE_TEXT \<longrightarrow>
      vrEmuTms9918aScanLine t 0 pixels = vrEmuTms9918aScanLine (t\<lparr> status := 0 \<rparr>) 0 pixels) \<and>
   vrEmuTms9918aOutputSprites t 0 pixels =
     sprite_slots 0
       ((if tmsSpriteSize t \<noteq> 0 then 16 else 8) * (if tmsSpriteMag t \<noteq> 0 then 2 else 1))
       (tmsSpriteAttrTableAddr t) (tmsSpritePatternTableAddr t) 0 0 (t\<lparr> status := 0 \<rparr>, pixels) \<and>
   (registers t TMS_REG_1 AND 0x40 = 0 \<or> mode t = TMS_MODE_TEXT \<longrightarrow>
      vrEmuTms9918aScanLine t 0 pixels = Some tp' \<longrightarrow> status (fst tp') = status t)"
proof (intro conjI impI)
  assume on: "registers t TMS_REG_1 AND 0x40 \<noteq> 0" and sprites: "mode t \<noteq> TMS_MODE_TEXT"
  have en: "vrEmuTms9918aDisplayEnabled t \<noteq> 0"
    using on by (simp add: vrEmuTms9918aDisplayEnabled_def)
  have top: "\<not> uint (0 :: u8) \<ge> TMS9918A_PIXELS_Y"
    by (simp add: TMS9918A_PIXELS_Y_def)
  from sprites show
    "vrEmuTms9918aScanLine t 0 pixels = vrEmuTms9918aScanLine (t\<lparr> status := 0 \<rparr>) 0 pixels"
    unfolding vrEmuTms9918aScanLine_def
    by (cases "mode t")
       (simp_all only: decode_ignores_status en top simp_thms if_False
          vrEmuTms9918aMode.case vrEmuTms9918aGraphicsIScanLine_def
          vrEmuTms9918aGraphicsIIScanLine_def vrEmuTms9918aMulticolorScanLine_def
          status_irrelevant_on_line_0 select_convs surjective_pairing update_convs
          vrEmuTms9918aMode.simps)
next
  show "vrEmuTms9918aOutputSprites t 0 pixels =
     sprite_slots 0
       ((if tmsSpriteSize t \<noteq> 0 then 16 else 8) * (if tmsSpriteMag t \<noteq> 0 then 2 else 1))
       (tmsSpriteAttrTableAddr t) (tmsSpritePatternTableAddr t) 0 0 (t\<lparr> status := 0 \<rparr>, pixels)"
    by (simp add: vrEmuTms9918aOutputSprites_def Let_def)
next
  assume off: "registers t TMS_REG_1 AND 0x40 = 0 \<or> mode t = TMS_MODE_TEXT"
    and run: "vrEmuTms9918aScanLine t 0 pixels = Some tp'"
  show "status (fst tp') = status t"
  proof (cases "registers t TMS_REG_1 AND 0x40 = 0")
    case True
    then show ?thesis
      using run by (auto simp: vrEmuTms9918aScanLine_def vrEmuTms9918aDisplayEnabled_def)
  next
    case False
    with off have "mode t = TMS_MODE_TEXT" by simp
    then show ?thesis
      using run False
      by (auto simp: vrEmuTms9918aScanLine_def vrEmuTms9918aDisplayEnabled_def
          TMS9918A_PIXELS_Y_def split: bind_splits dest: renderer_frame(3))
  qed
qed

theorem scanline_zero_clears_status_witness:
  "registers (five_state\<lparr> status := 0xE5 \<rparr>) TMS_REG_1 AND 0x40 \<noteq> 0 \<and>
   mode (five_state\<lparr> status := 0xE5 \<rparr>) \<noteq> TMS_MODE_TEXT \<and>
   vrEmuTms9918aScanLine (five_state\<lparr> status := 0xE5 \<rparr>) 0 zero_pixels =
     vrEmuTms9918aScanLine (five_state\<lparr> status := 0xE5, status := 0 \<rparr>) 0 zero_pixels \<and>
   mode text_state = TMS_MODE_TEXT \<and>
   vrEmuTms9918aScanLine text_state 0 zero_pixels \<noteq> None \<and>
   status (fst (the (vrEmuTms9918aScanLine text_state 0 zero_pixels))) = status text_state"
proof -
  have on: "registers (five_state\<lparr> status := 0xE5 \<rparr>) TMS_REG_1 AND 0x40 \<noteq> 0"
    and gr: "mode (five_state\<lparr> status := 0xE5 \<rparr>) \<noteq> TMS_MODE_TEXT"
    by (simp_all add: five_state_def zeroed_def constant_defs)
  have tx: "mode text_state = TMS_MODE_TEXT"
    by (simp add: text_state_def)
  obtain tp' where run: "vrEmuTms9918aScanLine text_state 0 zero_pixels = Some tp'"
    using text_line_status by (cases "vrEmuTms9918aScanLine text_state 0 zero_pixels") auto
  note a = scanline_zero_clears_status
    [of "five_state\<lparr> status := 0xE5 \<rparr>" zero_pixels, THEN conjunct1, rule_format, OF on gr]
  note b = scanline_zero_clears_status
    [of text_state zero_pixels tp', THEN conjunct2, THEN conjunct2, rule_format, OF disjI2 run,
     OF tx]
  show ?thesis
    using on gr tx run a b by simp
qed

end
